theory Spec2Isabelle
  imports Main "HOL-Library.AList"
begin

section \<open>Swagger UI middleware for Fiber v3 (swagger.go)\<close>

text \<open>
  The package has one source file, \<^verbatim>\<open>swagger.go\<close>: the constructor \<^verbatim>\<open>New\<close>, which
  returns the request handler as a closure over \<^verbatim>\<open>cfg\<close>, \<^verbatim>\<open>index\<close>, \<^verbatim>\<open>prefix\<close> and
  \<^verbatim>\<open>once\<close>, and the helper \<^verbatim>\<open>getForwardedPrefix\<close>. Go strings are byte strings and
  are modelled as \<^typ>\<open>string\<close>.
\<close>

subsection \<open>Go standard library: \<^verbatim>\<open>strings\<close>, \<^verbatim>\<open>path\<close>, \<^verbatim>\<open>html/template\<close>\<close>

text \<open>
  \<^verbatim>\<open>strings.ReplaceAll(s, old, new)\<close> replaces the non-overlapping occurrences of
  \<^verbatim>\<open>old\<close> in \<^verbatim>\<open>s\<close>, scanning from the left. The handler calls it with
  \<^verbatim>\<open>old = "*"\<close> only; the empty pattern, which Go matches at every rune boundary,
  is not covered by this model (an empty \<^verbatim>\<open>old\<close> leaves \<^verbatim>\<open>s\<close> as it is here).
\<close>

function ReplaceAll :: "string \<Rightarrow> string \<Rightarrow> string \<Rightarrow> string" where
  "ReplaceAll s old new =
     (if s = [] \<or> old = [] then s
      else if take (length old) s = old
        then new @ ReplaceAll (drop (length old) s) old new
        else hd s # ReplaceAll (tl s) old new)"
  by pat_completeness auto
termination
  by (relation "measure (\<lambda>(s, old, new). length s)") auto

declare ReplaceAll.simps [simp del]

text \<open>
  \<^verbatim>\<open>path.Clean\<close>. The Go code reads \<^verbatim>\<open>path\<close> at index \<^verbatim>\<open>r\<close> and writes into a
  buffer \<^verbatim>\<open>out\<close> whose write index \<^verbatim>\<open>out.w\<close> is the length of what has been
  written; \<^verbatim>\<open>dotdot\<close> is the index in the buffer where a \<^verbatim>\<open>..\<close> element must
  stop backtracking. The buffer is modelled by the list of the bytes written, so
  \<^verbatim>\<open>out.w\<close> is its length and \<^verbatim>\<open>out.w--\<close> drops its last byte.

  \<^verbatim>\<open>
  out.w--
  for out.w > dotdot && out.index(out.w) != '/' { out.w-- }
  \<close>
\<close>

function backtrack :: "string \<Rightarrow> nat \<Rightarrow> nat \<Rightarrow> nat" where
  "backtrack out w dotdot =
     (if w > dotdot \<and> out ! w \<noteq> CHR ''/'' then backtrack out (w - 1) dotdot else w)"
  by pat_completeness auto
termination
  by (relation "measure (\<lambda>(out, w, dotdot). w)") auto

declare backtrack.simps [simp del]

text \<open>
  The main loop of \<^verbatim>\<open>Clean\<close>, \<^verbatim>\<open>for r < n { switch { ... } }\<close>, with its four cases
  in the order of the source: an empty element, a \<^verbatim>\<open>.\<close> element, a \<^verbatim>\<open>..\<close>
  element, and a real element, which is copied up to the next \<^verbatim>\<open>/\<close>.
\<close>

function Clean_loop :: "string \<Rightarrow> bool \<Rightarrow> nat \<Rightarrow> string \<Rightarrow> nat \<Rightarrow> string" where
  "Clean_loop path rooted r out dotdot =
     (let n = length path in
      if r < n then
        if path ! r = CHR ''/'' then
          Clean_loop path rooted (r + 1) out dotdot
        else if path ! r = CHR ''.'' \<and> (r + 1 = n \<or> path ! (r + 1) = CHR ''/'') then
          Clean_loop path rooted (r + 1) out dotdot
        else if path ! r = CHR ''.'' \<and> path ! (r + 1) = CHR ''.''
                \<and> (r + 2 = n \<or> path ! (r + 2) = CHR ''/'') then
          (if length out > dotdot then
             Clean_loop path rooted (r + 2)
               (take (backtrack out (length out - 1) dotdot) out) dotdot
           else if \<not> rooted then
             (let out1 = (if length out > 0 then out @ ''/'' else out) @ ''..''
              in Clean_loop path rooted (r + 2) out1 (length out1))
           else Clean_loop path rooted (r + 2) out dotdot)
        else
          (let out1 = (if rooted \<and> length out \<noteq> 1 \<or> \<not> rooted \<and> length out \<noteq> 0
                       then out @ ''/'' else out);
               elem = takeWhile (\<lambda>ch. ch \<noteq> CHR ''/'') (drop r path)
           in Clean_loop path rooted (r + length elem) (out1 @ elem) dotdot)
      else out)"
  by pat_completeness auto
termination
proof (relation "measure (\<lambda>(path, rooted, r, out, dotdot). length path - r)", goal_cases)
  case 1
  show ?case by (rule wf_measure)
next
  case (2 path rooted r out dotdot n)
  then show ?case by (simp only: in_measure prod.case; linarith)
next
  case (3 path rooted r out dotdot n)
  then show ?case by (simp only: in_measure prod.case; linarith)
next
  case (4 path rooted r out dotdot n)
  then show ?case by (simp only: in_measure prod.case; linarith)
next
  case (5 path rooted r out dotdot n out1)
  then show ?case by (simp only: in_measure prod.case; linarith)
next
  case (6 path rooted r out dotdot n)
  then show ?case by (simp only: in_measure prod.case; linarith)
next
  case (7 path rooted r out dotdot n out1 elem)
  from 7(1,2) have r: "r < length path"
    by simp
  then have "drop r path = path ! r # drop (Suc r) path"
    by (simp only: Cons_nth_drop_Suc)
  with 7(3) have "elem = path ! r # takeWhile (\<lambda>ch. ch \<noteq> CHR ''/'') (drop (Suc r) path)"
    unfolding 7(7) by simp
  then have "0 < length elem"
    by simp
  with r show ?case
    by (simp only: in_measure prod.case; linarith)
qed

declare Clean_loop.simps [simp del]

definition Clean :: "string \<Rightarrow> string" where
  "Clean path =
     (if path = [] then ''.''
      else
        let rooted = (path ! 0 = CHR ''/'');
            out = Clean_loop path rooted (if rooted then 1 else 0)
                    (if rooted then ''/'' else []) (if rooted then 1 else 0)
        in if length out = 0 then ''.'' else out)"

text \<open>
  \<^verbatim>\<open>path.Join\<close>: empty elements are skipped, the others are joined with \<^verbatim>\<open>/\<close> and the
  result is cleaned; when every element is empty the result is the empty string.
\<close>

definition Join_append :: "string \<Rightarrow> string \<Rightarrow> string" where
  "Join_append buf e =
     (if length buf > 0 \<or> e \<noteq> []
      then (if length buf > 0 then buf @ ''/'' else buf) @ e
      else buf)"

definition Join :: "string list \<Rightarrow> string" where
  "Join elem =
     (if sum_list (map length elem) = 0 then []
      else Clean (foldl Join_append [] elem))"


text \<open>
  \<^verbatim>\<open>html/template\<close> writes no value of the data as it is: the escaper of the place
  where the value stands is applied to it. For a string in HTML text that is
  \<^verbatim>\<open>htmlEscaper\<close>, which is \<^verbatim>\<open>htmlReplacer(s, htmlReplacementTable, true)\<close>: every
  rune with an entry in the table is replaced by the entry, every other rune is copied.
  The table has entries for NUL (the replacement character U+FFFD, three bytes in
  UTF-8), the double quote, \<^verbatim>\<open>&\<close>, the apostrophe, \<^verbatim>\<open>+\<close>, \<^verbatim>\<open><\<close> and \<^verbatim>\<open>>\<close>. All of
  them are single bytes, and the bytes of a longer rune are none of them, so the
  replacement goes byte by byte. The empty string is the table's "no entry".
\<close>

definition htmlReplacementTable :: "char \<Rightarrow> string" where
  "htmlReplacementTable r =
     (if r = CHR 0x00 then [CHR 0xEF, CHR 0xBF, CHR 0xBD]
      else if r = CHR 0x22 then ''&#34;''
      else if r = CHR ''&'' then ''&amp;''
      else if r = CHR 0x27 then ''&#39;''
      else if r = CHR ''+'' then ''&#43;''
      else if r = CHR ''<'' then ''&lt;''
      else if r = CHR ''>'' then ''&gt;''
      else [])"

fun htmlReplacer :: "string \<Rightarrow> string" where
  "htmlReplacer [] = []"
| "htmlReplacer (r # s) =
     (let repl = htmlReplacementTable r
      in (if length repl \<noteq> 0 then repl else [r]) @ htmlReplacer s)"

definition htmlEscaper :: "string \<Rightarrow> string" where
  "htmlEscaper s = htmlReplacer s"

subsection \<open>Configuration, request context and handler state\<close>

text \<open>
  \<^verbatim>\<open>Config\<close> is declared in a file of the package that is not among the sources. The
  handler reads two of its fields, \<^verbatim>\<open>URL\<close> and \<^verbatim>\<open>InstanceName\<close>; the remaining
  fields only reach the template and are the record's extension.
\<close>

record Config =
  URL :: string
  InstanceName :: string

text \<open>A Go \<^verbatim>\<open>error\<close> value, identified by its message.\<close>

datatype error = Error string

text \<open>
  \<^verbatim>\<open>fiber.Ctx\<close>, as far as the handler uses it. Of the request: the path template of
  the matched route (\<^verbatim>\<open>c.Route().Path\<close>), the request headers, the route parameters
  (the wildcard has the name \<^verbatim>\<open>*\<close>) and the request path. Of the response: the
  extension last given to \<^verbatim>\<open>c.Type\<close> (the framework maps it to a MIME type), the
  headers set with \<^verbatim>\<open>c.Set\<close>, the status code and the body.
\<close>

record Ctx =
  RoutePath :: string
  ReqHeaders :: "(string \<times> string) list"
  RouteParams :: "(string \<times> string) list"
  ReqPath :: string
  RespType :: "string option"
  RespHeaders :: "(string \<times> string) list"
  StatusCode :: nat
  Body :: string

definition Ctx_Get :: "Ctx \<Rightarrow> string \<Rightarrow> string" where
  "Ctx_Get c key = (case map_of (ReqHeaders c) key of None \<Rightarrow> [] | Some v \<Rightarrow> v)"

definition Ctx_Params :: "Ctx \<Rightarrow> string \<Rightarrow> string" where
  "Ctx_Params c key = (case map_of (RouteParams c) key of None \<Rightarrow> [] | Some v \<Rightarrow> v)"

text \<open>\<^verbatim>\<open>c.Path(override)\<close> makes \<^verbatim>\<open>override\<close> the request path and returns it.\<close>

definition Ctx_Path :: "Ctx \<Rightarrow> string \<Rightarrow> Ctx \<times> string" where
  "Ctx_Path c override = (c\<lparr>ReqPath := override\<rparr>, override)"

definition Ctx_Type :: "Ctx \<Rightarrow> string \<Rightarrow> Ctx" where
  "Ctx_Type c extension = c\<lparr>RespType := Some extension\<rparr>"

text \<open>\<^verbatim>\<open>c.Set(key, val)\<close> sets the response header, replacing a value it has.\<close>

definition Ctx_Set :: "Ctx \<Rightarrow> string \<Rightarrow> string \<Rightarrow> Ctx" where
  "Ctx_Set c key val = c\<lparr>RespHeaders := AList.update key val (RespHeaders c)\<rparr>"

definition Ctx_Status :: "Ctx \<Rightarrow> nat \<Rightarrow> Ctx" where
  "Ctx_Status c status = c\<lparr>StatusCode := status\<rparr>"

definition Ctx_Send :: "Ctx \<Rightarrow> string \<Rightarrow> Ctx" where
  "Ctx_Send c body = c\<lparr>Body := body\<rparr>"

definition Ctx_SendString :: "Ctx \<Rightarrow> string \<Rightarrow> Ctx" where
  "Ctx_SendString c body = c\<lparr>Body := body\<rparr>"

text \<open>\<^verbatim>\<open>c.Write(p)\<close>, through which the template writes, appends to the body.\<close>

definition Ctx_Write :: "Ctx \<Rightarrow> string \<Rightarrow> Ctx" where
  "Ctx_Write c p = c\<lparr>Body := Body c @ p\<rparr>"

definition StatusMovedPermanently :: nat where
  "StatusMovedPermanently = 301"

definition StatusNotFound :: nat where
  "StatusNotFound = 404"

text \<open>
  \<^verbatim>\<open>utils.StatusMessage\<close>, for the two status codes of this handler; the framework
  gives the empty string for a code it does not know.
\<close>

definition StatusMessage :: "nat \<Rightarrow> string" where
  "StatusMessage status =
     (if status = 301 then ''Moved Permanently''
      else if status = 404 then ''Not Found''
      else [])"

text \<open>
  \<^verbatim>\<open>c.SendStatus(status)\<close> sets the status code and, only when the response has no
  body yet, the status message as the body.
\<close>

definition Ctx_SendStatus :: "Ctx \<Rightarrow> nat \<Rightarrow> Ctx" where
  "Ctx_SendStatus c status =
     (let c1 = Ctx_Status c status
      in if length (Body c1) = 0 then Ctx_SendString c1 (StatusMessage status) else c1)"

text \<open>
  A compiled template, by what \<^verbatim>\<open>Execute\<close> does with it: from the data, the bytes
  written to the writer and the error returned (\<open>None\<close> is \<^verbatim>\<open>nil\<close>).
\<close>

type_synonym 'a Template = "'a Config_scheme \<Rightarrow> string \<times> error option"

text \<open>
  The variables the closure returned by \<^verbatim>\<open>New\<close> captures and changes: \<^verbatim>\<open>cfg\<close>,
  \<^verbatim>\<open>prefix\<close> and the \<^verbatim>\<open>done\<close> flag of \<^verbatim>\<open>once\<close>.
\<close>

record 'a handler_state =
  cfg :: "'a Config_scheme"
  prefix :: string
  once :: bool

definition defaultDocURL :: string where
  "defaultDocURL = ''doc.json''"

definition defaultIndex :: string where
  "defaultIndex = ''index.html''"

subsection \<open>\<^verbatim>\<open>getForwardedPrefix\<close>\<close>

text \<open>
  \<^verbatim>\<open>
  endIndex := len(header)
  for endIndex > 1 && header[endIndex-1] == '/' { endIndex-- }
  return header[:endIndex]
  \<close>
\<close>

function endIndex_loop :: "string \<Rightarrow> nat \<Rightarrow> nat" where
  "endIndex_loop header endIndex =
     (if endIndex > 1 \<and> header ! (endIndex - 1) = CHR ''/''
      then endIndex_loop header (endIndex - 1)
      else endIndex)"
  by pat_completeness auto
termination
  by (relation "measure (\<lambda>(header, endIndex). endIndex)") auto

declare endIndex_loop.simps [simp del]

definition getForwardedPrefix :: "Ctx \<Rightarrow> string" where
  "getForwardedPrefix c =
     (let header = Ctx_Get c ''X-Forwarded-Prefix''
      in if length header = 0 then []
         else take (endIndex_loop header (length header)) header)"

subsection \<open>The handler returned by \<^verbatim>\<open>New\<close>\<close>

text \<open>
  \<^verbatim>\<open>once.Do(f)\<close> runs \<^verbatim>\<open>f\<close> when the flag is not set and sets it; otherwise it does
  nothing. The requests of one handler are taken one after the other here; what
  \<^verbatim>\<open>sync.Once\<close> guarantees to goroutines that call it at the same time is the
  library's and is not part of this model.
\<close>

definition once_Do :: "('a handler_state \<Rightarrow> 'a handler_state) \<Rightarrow> 'a handler_state \<Rightarrow> 'a handler_state" where
  "once_Do f h = (if once h then h else (f h)\<lparr>once := True\<rparr>)"

text \<open>The function given to \<^verbatim>\<open>once.Do\<close>, lines 50 to 60.\<close>

definition init :: "Ctx \<Rightarrow> 'a handler_state \<Rightarrow> 'a handler_state" where
  "init c h =
     (let prefix1 = ReplaceAll (RoutePath c) ''*'' [];
          forwardedPrefix = getForwardedPrefix c;
          prefix2 = (if forwardedPrefix \<noteq> [] then forwardedPrefix @ prefix1 else prefix1);
          cfg1 = (if length (URL (cfg h)) = 0
                  then (cfg h)\<lparr>URL := Join [prefix2, defaultDocURL]\<rparr>
                  else cfg h)
      in h\<lparr>prefix := prefix2, cfg := cfg1\<rparr>)"

text \<open>
  \<^verbatim>\<open>New\<close>: the argument is the configuration after \<^verbatim>\<open>configDefault\<close>, which is
  declared with \<^verbatim>\<open>Config\<close> outside the sources. The compiled index template and the
  registry lookup \<^verbatim>\<open>swag.ReadDoc\<close> are parameters of the handler.
\<close>

definition New :: "'a Config_scheme \<Rightarrow> 'a handler_state" where
  "New config = \<lparr>cfg = config, prefix = [], once = False\<rparr>"

text \<open>
  One call of the handler: the new closure state, the context as the handler leaves
  it, and the error returned.
\<close>

definition handler ::
  "'a Template \<Rightarrow> (string \<Rightarrow> error + string) \<Rightarrow> 'a handler_state \<Rightarrow> Ctx
     \<Rightarrow> 'a handler_state \<times> Ctx \<times> error option" where
  "handler index ReadDoc h c =
     (let h1 = once_Do (init c) h;
          (c1, p) = Ctx_Path c (Ctx_Params c ''*'')
      in if p = defaultIndex then
           (let c2 = Ctx_Type c1 ''html'';
                (written, err) = index (cfg h1)
            in (h1, Ctx_Write c2 written, err))
         else if p = defaultDocURL then
           (case ReadDoc (InstanceName (cfg h1)) of
              Inl err \<Rightarrow> (h1, c1, Some err)
            | Inr doc \<Rightarrow> (h1, Ctx_SendString (Ctx_Type c1 ''json'') doc, None))
         else if p = [] \<or> p = ''/'' then
           (let c2 = Ctx_Set c1 ''Location'' (Join [prefix h1, defaultIndex])
            in (h1, Ctx_Send (Ctx_Status c2 StatusMovedPermanently) [], None))
         else (h1, Ctx_SendStatus c1 StatusNotFound, None))"

text \<open>A sequence of requests to one handler instance, one after the other.\<close>

fun serve ::
  "'a Template \<Rightarrow> (string \<Rightarrow> error + string) \<Rightarrow> 'a handler_state \<Rightarrow> Ctx list
     \<Rightarrow> 'a handler_state" where
  "serve index ReadDoc h [] = h"
| "serve index ReadDoc h (c # cs) = serve index ReadDoc (fst (handler index ReadDoc h c)) cs"

subsection \<open>Specification-level definitions\<close>

text \<open>
  The forwarded-prefix extraction in the words of the specification: strip all trailing
  \<^verbatim>\<open>/\<close> characters, but never erase a lone leading \<^verbatim>\<open>/\<close>: the first byte of a
  non-empty value stays, and of the rest everything up to its last byte that is not
  a \<^verbatim>\<open>/\<close>.
\<close>

definition stripTrailingSlashes_spec :: "string \<Rightarrow> string" where
  "stripTrailingSlashes_spec header =
     (case header of
        [] \<Rightarrow> []
      | x # xs \<Rightarrow> x # rev (dropWhile (\<lambda>ch. ch = CHR ''/'') (rev xs)))"

subsection \<open>Example inputs\<close>

text \<open>
  A request as the framework hands it to the handler: the route it matched, the
  request headers, the value of the wildcard parameter; status 200 and nothing
  written yet.
\<close>

definition request :: "string \<Rightarrow> (string \<times> string) list \<Rightarrow> string \<Rightarrow> Ctx" where
  "request route headers wildcard =
     \<lparr>RoutePath = route, ReqHeaders = headers, RouteParams = [(''*'', wildcard)],
      ReqPath = ReplaceAll route ''*'' wildcard,
      RespType = None, RespHeaders = [], StatusCode = 200, Body = []\<rparr>"

definition ex_config :: Config where
  "ex_config = \<lparr>URL = [], InstanceName = ''swagger''\<rparr>"

definition ex_config_url :: Config where
  "ex_config_url = \<lparr>URL = ''swagger.json'', InstanceName = ''swagger''\<rparr>"

text \<open>A registry that holds one document, under the name \<^verbatim>\<open>swagger\<close>.\<close>

definition ex_ReadDoc :: "string \<Rightarrow> error + string" where
  "ex_ReadDoc name =
     (if name = ''swagger'' then Inr ''{}''
      else Inl (Error ''not registered''))"

text \<open>
  Modelled from the spec: the index template \<^verbatim>\<open>indexTmpl\<close>, a constant declared in a
  file of the package that is not among the sources. In the examples a page with one
  substitution stands in its place, the template text
  \<^verbatim>\<open><code>{{.URL}}</code>\<close>
  as \<^verbatim>\<open>html/template\<close> executes it: the fixed text is written as it is, the document
  URL escaped for HTML text, and no error is returned.
\<close>

definition ex_index :: "unit Template" where
  "ex_index data = (''<code>'' @ htmlEscaper (URL data) @ ''</code>'', None)"


section \<open>Properties\<close>

subsection \<open>The library functions at the handler's arguments\<close>

text \<open>Replacing every \<^verbatim>\<open>*\<close> by the empty string removes exactly the \<^verbatim>\<open>*\<close> bytes.\<close>

lemma ReplaceAll_star: "ReplaceAll s ''*'' [] = filter (\<lambda>ch. ch \<noteq> CHR ''*'') s"
proof (induction s)
  case Nil
  show ?case by (subst ReplaceAll.simps) simp
next
  case (Cons x xs)
  show ?case
    by (subst ReplaceAll.simps) (simp add: Cons.IH)
qed

text \<open>The models on entries of the test tables of the Go library.\<close>

lemma Clean_examples:
  "Clean [] = ''.''"
  "Clean ''abc//def//ghi'' = ''abc/def/ghi''"
  "Clean ''/./abc/def'' = ''/abc/def''"
  "Clean ''abc/def/../ghi/../jkl'' = ''abc/jkl''"
  "Clean ''abc/def/../..'' = ''.''"
  "Clean ''/abc/def/../..'' = ''/''"
  "Clean ''abc/def/../../..'' = ''..''"
  "Clean ''/abc/def/../../..'' = ''/''"
  "Clean ''abc/def/../../../ghi/jkl/../../../mno'' = ''../../mno''"
  "Clean ''abc/../../././../def'' = ''../../def''"
  "Clean ''///abc'' = ''/abc''"
  "Clean ''abc/'' = ''abc''"
  "Clean ''/abc/'' = ''/abc''"
  "Clean ''../..'' = ''../..''"
  "Clean ''/..'' = ''/''"
  "Clean ''a/..b/.c/...'' = ''a/..b/.c/...''"
  by code_simp+

lemma Join_examples:
  "Join [] = []"
  "Join [''a'', ''b''] = ''a/b''"
  "Join [''a'', []] = ''a''"
  "Join [[], ''b''] = ''b''"
  "Join [''/'', ''a''] = ''/a''"
  "Join [''/'', []] = ''/''"
  "Join [''a/'', ''b''] = ''a/b''"
  "Join [[], []] = []"
  "Join [''/docs/'', ''index.html''] = ''/docs/index.html''"
  "Join [[], ''index.html''] = ''index.html''"
  by code_simp+

lemma ReplaceAll_examples:
  "ReplaceAll ''/docs/*'' ''*'' [] = ''/docs/''"
  "ReplaceAll ''/a/*/b/*'' ''*'' [] = ''/a//b/''"
  "ReplaceAll ''oink oink oink'' ''k'' ''ky'' = ''oinky oinky oinky''"
  "ReplaceAll ''oink oink oink'' ''oink'' ''moo'' = ''moo moo moo''"
  "ReplaceAll ''aaaa'' ''aa'' ''b'' = ''bb''"
  by code_simp+

lemma htmlEscaper_examples:
  "htmlEscaper ''a<b>&c+d'' = ''a&lt;b&gt;&amp;c&#43;d''"
  "htmlEscaper [CHR ''a'', CHR 0x22, CHR 0x27, CHR 0x00] =
     ''a&#34;&#39;'' @ [CHR 0xEF, CHR 0xBF, CHR 0xBD]"
  "htmlEscaper ''/docs/doc.json'' = ''/docs/doc.json''"
  "htmlEscaper [] = []"
  by code_simp+

lemma ex_Join_index: "Join [''/docs/'', ''index.html''] = ''/docs/index.html''"
  by code_simp

lemma ex_Join_doc: "Join [''/docs/'', ''doc.json''] = ''/docs/doc.json''"
  by code_simp

lemma ex_Join_api_doc: "Join [''/api/docs/'', ''doc.json''] = ''/api/docs/doc.json''"
  by code_simp

subsection \<open>The trimming loop of \<^verbatim>\<open>getForwardedPrefix\<close>\<close>

text \<open>
  Started at an index between 1 and the length, the loop stops at the end of the
  first byte followed by the rest without its trailing slashes.
\<close>

lemma endIndex_loop_take:
  "1 \<le> n \<Longrightarrow> n \<le> length header \<Longrightarrow>
   take (endIndex_loop header n) header =
     hd header # rev (dropWhile (\<lambda>ch. ch = CHR ''/'') (rev (take (n - 1) (tl header))))"
proof (induction header n rule: endIndex_loop.induct)
  case (1 header endIndex)
  from 1(2,3) obtain x xs where h: "header = x # xs"
    by (cases header) auto
  show ?case
  proof (cases "endIndex > 1 \<and> header ! (endIndex - 1) = CHR ''/''")
    case True
    define k where "k = endIndex - 2"
    with True have k: "endIndex = Suc (Suc k)"
      by arith
    with 1(3) h have kl: "k < length xs" by simp
    from True k h have sl: "xs ! k = CHR ''/''" by simp
    have "take (Suc k) xs = take k xs @ [xs ! k]"
      using kl by (simp add: take_Suc_conv_app_nth)
    with sl have "dropWhile (\<lambda>ch. ch = CHR ''/'') (rev (take (Suc k) xs))
                = dropWhile (\<lambda>ch. ch = CHR ''/'') (rev (take k xs))"
      by simp
    moreover have "take (endIndex_loop header (endIndex - 1)) header =
       hd header # rev (dropWhile (\<lambda>ch. ch = CHR ''/'') (rev (take (endIndex - 1 - 1) (tl header))))"
      using 1(1)[OF True] 1(3) k by simp
    moreover have "endIndex_loop header endIndex = endIndex_loop header (endIndex - 1)"
      using True by (subst endIndex_loop.simps) simp
    ultimately show ?thesis
      using k h by simp
  next
    case False
    then have e: "endIndex_loop header endIndex = endIndex"
      by (subst endIndex_loop.simps) (simp only: if_False)
    show ?thesis
    proof (cases "endIndex = 1")
      case True
      with e h show ?thesis by simp
    next
      case False
      define k where "k = endIndex - 2"
      with False 1(2) have k: "endIndex = Suc (Suc k)"
        by arith
      with 1(3) h have kl: "k < length xs" by simp
      from \<open>\<not> (endIndex > 1 \<and> header ! (endIndex - 1) = CHR ''/'')\<close> k h
      have sl: "xs ! k \<noteq> CHR ''/''" by simp
      have "take (Suc k) xs = take k xs @ [xs ! k]"
        using kl by (simp add: take_Suc_conv_app_nth)
      with sl have "dropWhile (\<lambda>ch. ch = CHR ''/'') (rev (take (Suc k) xs)) = rev (take (Suc k) xs)"
        by simp
      with e k h show ?thesis by simp
    qed
  qed
qed

lemma strip_slashes_decomp:
  "\<exists>k. xs = rev (dropWhile (\<lambda>ch. ch = CHR ''/'') (rev xs)) @ replicate k CHR ''/''"
proof -
  let ?P = "\<lambda>ch. ch = CHR ''/''"
  have "rev xs = takeWhile ?P (rev xs) @ dropWhile ?P (rev xs)"
    by simp
  then have "xs = rev (dropWhile ?P (rev xs)) @ rev (takeWhile ?P (rev xs))"
    by (metis rev_append rev_rev_ident)
  moreover have "takeWhile ?P (rev xs) = replicate (length (takeWhile ?P (rev xs))) CHR ''/''"
    by (rule replicate_length_same [symmetric]) (auto dest: set_takeWhileD)
  then have "rev (takeWhile ?P (rev xs)) = replicate (length (takeWhile ?P (rev xs))) CHR ''/''"
    by (metis rev_replicate)
  ultimately show ?thesis
    by metis
qed

lemma strip_slashes_last:
  "rev (dropWhile (\<lambda>ch. ch = CHR ''/'') (rev xs)) = [] \<or>
   last (rev (dropWhile (\<lambda>ch. ch = CHR ''/'') (rev xs))) \<noteq> CHR ''/''"
proof (cases "dropWhile (\<lambda>ch. ch = CHR ''/'') (rev xs) = []")
  case True
  then show ?thesis by simp
next
  case False
  then have "hd (dropWhile (\<lambda>ch. ch = CHR ''/'') (rev xs)) \<noteq> CHR ''/''"
    by (rule hd_dropWhile)
  with False show ?thesis
    by (simp add: last_rev)
qed

lemma strip_slashes_all:
  "set xs \<subseteq> {CHR ''/''} \<Longrightarrow> rev (dropWhile (\<lambda>ch. ch = CHR ''/'') (rev xs)) = []"
  by auto

lemma getForwardedPrefix_strip:
  "getForwardedPrefix c = stripTrailingSlashes_spec (Ctx_Get c ''X-Forwarded-Prefix'')"
proof (cases "Ctx_Get c ''X-Forwarded-Prefix''")
  case Nil
  then show ?thesis
    by (simp add: getForwardedPrefix_def stripTrailingSlashes_spec_def)
next
  case (Cons x xs)
  then have "take (endIndex_loop (x # xs) (length (x # xs))) (x # xs) =
      hd (x # xs) # rev (dropWhile (\<lambda>ch. ch = CHR ''/'') (rev (take (length (x # xs) - 1) (tl (x # xs)))))"
    by (intro endIndex_loop_take) simp_all
  with Cons show ?thesis
    by (simp add: getForwardedPrefix_def stripTrailingSlashes_spec_def)
qed

lemma getForwardedPrefix_Nil:
  "Ctx_Get c ''X-Forwarded-Prefix'' = [] \<Longrightarrow> getForwardedPrefix c = []"
  by (simp add: getForwardedPrefix_strip stripTrailingSlashes_spec_def)

lemma getForwardedPrefix_Cons:
  "Ctx_Get c ''X-Forwarded-Prefix'' = x # xs \<Longrightarrow>
   getForwardedPrefix c = x # rev (dropWhile (\<lambda>ch. ch = CHR ''/'') (rev xs))"
  by (simp add: getForwardedPrefix_strip stripTrailingSlashes_spec_def)

lemma Ctx_Get_absent: "map_of (ReqHeaders c) key = None \<Longrightarrow> Ctx_Get c key = []"
  by (simp add: Ctx_Get_def)

subsection \<open>The one-time initialisation\<close>

lemma once_Do_done: "once h \<Longrightarrow> once_Do f h = h"
  by (simp add: once_Do_def)

lemma once_Do_sets: "once (once_Do f h)"
  by (simp add: once_Do_def)

lemma init_prefix:
  "prefix (init c h) = getForwardedPrefix c @ filter (\<lambda>ch. ch \<noteq> CHR ''*'') (RoutePath c)"
  by (simp add: init_def Let_def ReplaceAll_star)

lemma init_URL:
  "URL (cfg (init c h)) =
     (if URL (cfg h) = [] then Join [prefix (init c h), defaultDocURL] else URL (cfg h))"
  by (simp add: init_def Let_def)

lemma init_InstanceName: "InstanceName (cfg (init c h)) = InstanceName (cfg h)"
  by (simp add: init_def Let_def)

lemma once_Do_init_InstanceName:
  "InstanceName (cfg (once_Do (init c) h)) = InstanceName (cfg h)"
  by (simp add: once_Do_def init_InstanceName)

lemma once_Do_first:
  "\<not> once h \<Longrightarrow> prefix (once_Do f h) = prefix (f h) \<and> cfg (once_Do f h) = cfg (f h)"
  by (simp add: once_Do_def)

subsection \<open>The four branches of the dispatch\<close>

lemma handler_state: "fst (handler index ReadDoc h c) = once_Do (init c) h"
  by (simp add: handler_def Let_def Ctx_Path_def split: prod.splits sum.splits)


lemma handler_doc:
  "Ctx_Params c ''*'' = ''doc.json'' \<Longrightarrow>
   snd (handler index ReadDoc h c) =
     (case ReadDoc (InstanceName (cfg h)) of
        Inl err \<Rightarrow> (c\<lparr>ReqPath := ''doc.json''\<rparr>, Some err)
      | Inr doc \<Rightarrow> (c\<lparr>ReqPath := ''doc.json'', RespType := Some ''json'', Body := doc\<rparr>, None))"
  by (simp add: handler_def Let_def Ctx_Path_def Ctx_Type_def Ctx_SendString_def
      defaultIndex_def defaultDocURL_def once_Do_init_InstanceName split: sum.splits)

lemma handler_bare:
  "Ctx_Params c ''*'' = [] \<or> Ctx_Params c ''*'' = ''/'' \<Longrightarrow>
   snd (handler index ReadDoc h c) =
     (c\<lparr>ReqPath := Ctx_Params c ''*'',
        RespHeaders := AList.update ''Location''
          (Join [prefix (once_Do (init c) h), ''index.html'']) (RespHeaders c),
        StatusCode := 301, Body := []\<rparr>, None)"
  by (auto simp add: handler_def Let_def Ctx_Path_def Ctx_Set_def Ctx_Status_def Ctx_Send_def
      defaultIndex_def defaultDocURL_def StatusMovedPermanently_def)

lemma handler_other:
  "Ctx_Params c ''*'' \<notin> {''index.html'', ''doc.json'', [], ''/''} \<Longrightarrow>
   snd (handler index ReadDoc h c) =
     (Ctx_SendStatus (c\<lparr>ReqPath := Ctx_Params c ''*''\<rparr>) 404, None)"
  by (simp add: handler_def Let_def Ctx_Path_def defaultIndex_def defaultDocURL_def
      StatusNotFound_def)

lemma handler_no_lookup:
  "Ctx_Params c ''*'' \<noteq> ''doc.json'' \<Longrightarrow>
   handler index ReadDoc h c = handler index ReadDoc' h c"
  by (simp add: handler_def Let_def Ctx_Path_def defaultDocURL_def)

lemma serve_done: "once h \<Longrightarrow> serve index ReadDoc h cs = h"
  by (induction cs) (simp_all add: handler_state once_Do_done)

subsection \<open>Containment\<close>



section \<open>Claims of the specification\<close>

subsection \<open>Forwarded prefix\<close>

text \<open>
  C5. \<^verbatim>\<open>getForwardedPrefix\<close> returns the empty string when the request has no
  \<^verbatim>\<open>X-Forwarded-Prefix\<close> header or an empty one. Otherwise it returns the header
  value without its trailing slashes, the first byte always kept: the result is not
  empty, the header is the result followed by slashes only, and the result is one
  byte long or does not end in a slash. A header made of slashes only gives \<^verbatim>\<open>/\<close>.
\<close>

theorem getForwardedPrefix_correct:
  "let header = Ctx_Get c ''X-Forwarded-Prefix''; r = getForwardedPrefix c in
     (map_of (ReqHeaders c) ''X-Forwarded-Prefix'' = None \<longrightarrow> r = []) \<and>
     (header = [] \<longrightarrow> r = []) \<and>
     (header \<noteq> [] \<longrightarrow>
        r = stripTrailingSlashes_spec header \<and> r \<noteq> [] \<and> hd r = hd header \<and>
        (\<exists>k. header = r @ replicate k CHR ''/'') \<and>
        (length r = 1 \<or> last r \<noteq> CHR ''/'')) \<and>
     (header \<noteq> [] \<and> set header \<subseteq> {CHR ''/''} \<longrightarrow> r = ''/'')"
proof (cases "Ctx_Get c ''X-Forwarded-Prefix''")
  case Nil
  then have "getForwardedPrefix c = []"
    by (rule getForwardedPrefix_Nil)
  with Nil show ?thesis
    by (simp add: Let_def)
next
  case (Cons x xs)
  define ys where "ys = rev (dropWhile (\<lambda>ch. ch = CHR ''/'') (rev xs))"
  from Cons have s: "getForwardedPrefix c = x # ys"
    unfolding ys_def by (rule getForwardedPrefix_Cons)
  from Cons have present: "map_of (ReqHeaders c) ''X-Forwarded-Prefix'' \<noteq> None"
    using Ctx_Get_absent [of c "''X-Forwarded-Prefix''"] by auto
  have 0: "stripTrailingSlashes_spec (x # xs) = x # ys"
    by (simp add: stripTrailingSlashes_spec_def ys_def)
  obtain k where "xs = ys @ replicate k CHR ''/''"
    unfolding ys_def using strip_slashes_decomp [of xs] by blast
  then have "x # xs = (x # ys) @ replicate k CHR ''/''"
    by simp
  then have 1: "\<exists>k. x # xs = (x # ys) @ replicate k CHR ''/''" ..
  have "ys = [] \<or> last ys \<noteq> CHR ''/''"
    unfolding ys_def by (rule strip_slashes_last)
  then have 2: "length (x # ys) = 1 \<or> last (x # ys) \<noteq> CHR ''/''"
    by auto
  have 3: "x # ys = ''/''" if "set (x # xs) \<subseteq> {CHR ''/''}"
    using that by (simp add: ys_def strip_slashes_all)
  show ?thesis
    unfolding Let_def Cons s using present 0 1 2 3 by simp
qed

theorem getForwardedPrefix_correct_witness:
  "getForwardedPrefix (request ''/docs/*'' [] []) = [] \<and>
   getForwardedPrefix (request ''/docs/*'' [(''X-Forwarded-Prefix'', ''/api//'')] []) = ''/api'' \<and>
   getForwardedPrefix (request ''/docs/*'' [(''X-Forwarded-Prefix'', ''///'')] []) = ''/''"
proof -
  have a: "map_of (ReqHeaders (request ''/docs/*'' [] [])) ''X-Forwarded-Prefix'' = None"
    by (simp add: request_def)
  have b: "Ctx_Get (request ''/docs/*'' [(''X-Forwarded-Prefix'', ''/api//'')] [])
      ''X-Forwarded-Prefix'' = ''/api//''"
    by (simp add: request_def Ctx_Get_def)
  have c: "Ctx_Get (request ''/docs/*'' [(''X-Forwarded-Prefix'', ''///'')] [])
      ''X-Forwarded-Prefix'' = ''///''"
    by (simp add: request_def Ctx_Get_def)
  have "getForwardedPrefix (request ''/docs/*'' [] []) = []"
    using getForwardedPrefix_correct [of "request ''/docs/*'' [] []"] a
    by (simp add: Let_def)
  moreover have "getForwardedPrefix (request ''/docs/*'' [(''X-Forwarded-Prefix'', ''/api//'')] [])
      = ''/api''"
    using getForwardedPrefix_correct
      [of "request ''/docs/*'' [(''X-Forwarded-Prefix'', ''/api//'')] []"] b
    by (simp add: Let_def stripTrailingSlashes_spec_def)
  moreover have "getForwardedPrefix (request ''/docs/*'' [(''X-Forwarded-Prefix'', ''///'')] [])
      = ''/''"
    using getForwardedPrefix_correct
      [of "request ''/docs/*'' [(''X-Forwarded-Prefix'', ''///'')] []"] c
    by (simp add: Let_def stripTrailingSlashes_spec_def)
  ultimately show ?thesis
    by simp
qed

text \<open>
  C4. On the first request to a handler made by \<^verbatim>\<open>New\<close>, the prefix becomes the path
  template of the route without its \<^verbatim>\<open>*\<close> bytes; when the request has a non-empty
  \<^verbatim>\<open>X-Forwarded-Prefix\<close> header, the header value with its trailing slashes stripped
  (as \<^verbatim>\<open>getForwardedPrefix\<close> strips them) stands in front of it. The header
  \<^verbatim>\<open>/api/\<close> contributes \<^verbatim>\<open>/api\<close>.
\<close>

theorem first_request_prefix:
  "let h' = fst (handler index ReadDoc (New config) c);
       header = Ctx_Get c ''X-Forwarded-Prefix'';
       raw = filter (\<lambda>ch. ch \<noteq> CHR ''*'') (RoutePath c) in
     (header = [] \<longrightarrow> prefix h' = raw) \<and>
     (header \<noteq> [] \<longrightarrow> prefix h' = stripTrailingSlashes_spec header @ raw) \<and>
     (header = ''/api/'' \<longrightarrow> prefix h' = ''/api'' @ raw)"
proof -
  have "prefix (fst (handler index ReadDoc (New config) c)) =
      stripTrailingSlashes_spec (Ctx_Get c ''X-Forwarded-Prefix'')
        @ filter (\<lambda>ch. ch \<noteq> CHR ''*'') (RoutePath c)"
    by (simp add: handler_state once_Do_first New_def init_prefix getForwardedPrefix_strip)
  then show ?thesis
    by (auto simp add: Let_def stripTrailingSlashes_spec_def)
qed

theorem first_request_prefix_witness:
  "prefix (fst (handler ex_index ex_ReadDoc (New ex_config) (request ''/docs/*'' [] ''index.html'')))
     = ''/docs/'' \<and>
   prefix (fst (handler ex_index ex_ReadDoc (New ex_config)
     (request ''/docs/*'' [(''X-Forwarded-Prefix'', ''/api/'')] ''index.html'')))
     = ''/api/docs/''"
proof -
  have a: "Ctx_Get (request ''/docs/*'' [] ''index.html'') ''X-Forwarded-Prefix'' = []"
    by (simp add: request_def Ctx_Get_def)
  have b: "Ctx_Get (request ''/docs/*'' [(''X-Forwarded-Prefix'', ''/api/'')] ''index.html'')
      ''X-Forwarded-Prefix'' = ''/api/''"
    by (simp add: request_def Ctx_Get_def)
  have "prefix (fst (handler ex_index ex_ReadDoc (New ex_config)
      (request ''/docs/*'' [] ''index.html''))) = ''/docs/''"
    using first_request_prefix
      [of ex_index ex_ReadDoc ex_config "request ''/docs/*'' [] ''index.html''"] a
    by (simp add: Let_def request_def)
  moreover have "prefix (fst (handler ex_index ex_ReadDoc (New ex_config)
      (request ''/docs/*'' [(''X-Forwarded-Prefix'', ''/api/'')] ''index.html''))) = ''/api/docs/''"
    using first_request_prefix
      [of ex_index ex_ReadDoc ex_config
          "request ''/docs/*'' [(''X-Forwarded-Prefix'', ''/api/'')] ''index.html''"] b
    by (simp add: Let_def request_def stripTrailingSlashes_spec_def)
  ultimately show ?thesis
    by simp
qed

subsection \<open>Default document URL\<close>

text \<open>
  C3 as stated fails when the mount prefix \<open>P\<close> is, as the glossary of the
  specification has it, the path under which the handler is registered without its
  trailing wildcard: mounted at \<^verbatim>\<open>/docs/*\<close> with an empty \<^verbatim>\<open>Config.URL\<close>, a first
  request with the header \<^verbatim>\<open>X-Forwarded-Prefix: /api\<close> makes the document URL
  \<^verbatim>\<open>/api/docs/doc.json\<close>, whereas the join of \<^verbatim>\<open>/docs/\<close> and \<^verbatim>\<open>doc.json\<close> is
  \<^verbatim>\<open>/docs/doc.json\<close>.
\<close>

theorem URL_not_join_of_mount_prefix:
  "URL ex_config = [] \<and>
   ReplaceAll (RoutePath (request ''/docs/*'' [(''X-Forwarded-Prefix'', ''/api'')] ''index.html''))
     ''*'' [] = ''/docs/'' \<and>
   URL (cfg (fst (handler ex_index ex_ReadDoc (New ex_config)
     (request ''/docs/*'' [(''X-Forwarded-Prefix'', ''/api'')] ''index.html''))))
     = ''/api/docs/doc.json'' \<and>
   Join [''/docs/'', ''doc.json''] = ''/docs/doc.json'' \<and>
   URL (cfg (fst (handler ex_index ex_ReadDoc (New ex_config)
     (request ''/docs/*'' [(''X-Forwarded-Prefix'', ''/api'')] ''index.html''))))
     \<noteq> Join [ReplaceAll (RoutePath
         (request ''/docs/*'' [(''X-Forwarded-Prefix'', ''/api'')] ''index.html'')) ''*'' [],
       ''doc.json'']"
proof -
  let ?c = "request ''/docs/*'' [(''X-Forwarded-Prefix'', ''/api'')] ''index.html''"
  have u: "URL ex_config = []"
    by (simp add: ex_config_def)
  have r: "ReplaceAll (RoutePath ?c) ''*'' [] = ''/docs/''"
    by (simp add: ReplaceAll_star) (simp add: request_def)
  have f: "getForwardedPrefix ?c = ''/api''"
    by (simp add: getForwardedPrefix_strip stripTrailingSlashes_spec_def request_def Ctx_Get_def)
  have "fst (handler ex_index ex_ReadDoc (New ex_config) ?c)
      = (init ?c (New ex_config))\<lparr>once := True\<rparr>"
    by (simp add: handler_state once_Do_def New_def)
  moreover have "prefix (init ?c (New ex_config)) = ''/api/docs/''"
    using r by (simp add: init_prefix f ReplaceAll_star)
  moreover have "URL (cfg (New ex_config)) = []"
    by (simp add: New_def u)
  ultimately have "URL (cfg (fst (handler ex_index ex_ReadDoc (New ex_config) ?c)))
      = Join [''/api/docs/'', ''doc.json'']"
    by (simp add: init_URL defaultDocURL_def)
  then have a: "URL (cfg (fst (handler ex_index ex_ReadDoc (New ex_config) ?c)))
      = ''/api/docs/doc.json''"
    by (simp only: ex_Join_api_doc)
  have "URL (cfg (fst (handler ex_index ex_ReadDoc (New ex_config) ?c)))
      \<noteq> Join [ReplaceAll (RoutePath ?c) ''*'' [], ''doc.json'']"
    unfolding a r ex_Join_doc by simp
  with u r a ex_Join_doc show ?thesis
    by (intro conjI)
qed

text \<open>
  C3, amended. When the configuration given to \<^verbatim>\<open>New\<close> has an empty \<^verbatim>\<open>URL\<close>, then
  after the first request \<^verbatim>\<open>cfg.URL\<close> is the path join of the prefix that request
  computed and \<^verbatim>\<open>doc.json\<close>; that prefix is the mount prefix \<open>P\<close> (the route's
  path template without its \<^verbatim>\<open>*\<close> bytes) preceded by the forwarded prefix of the
  request. When the first request has no \<^verbatim>\<open>X-Forwarded-Prefix\<close> value, \<^verbatim>\<open>cfg.URL\<close>
  is the path join of \<open>P\<close> and \<^verbatim>\<open>doc.json\<close>.
\<close>

theorem default_document_URL:
  assumes "URL config = []"
  shows "let h' = fst (handler index ReadDoc (New config) c);
             P = filter (\<lambda>ch. ch \<noteq> CHR ''*'') (RoutePath c) in
           URL (cfg h') = Join [prefix h', ''doc.json''] \<and>
           prefix h' = getForwardedPrefix c @ P \<and>
           (Ctx_Get c ''X-Forwarded-Prefix'' = [] \<longrightarrow> URL (cfg h') = Join [P, ''doc.json''])"
proof -
  let ?h' = "fst (handler index ReadDoc (New config) c)"
  let ?P = "filter (\<lambda>ch. ch \<noteq> CHR ''*'') (RoutePath c)"
  have n: "URL (cfg (New config)) = []"
    using assms by (simp add: New_def)
  have o: "\<not> once (New config)"
    by (simp add: New_def)
  have h': "?h' = (init c (New config))\<lparr>once := True\<rparr>"
    by (simp add: handler_state once_Do_def o)
  have p: "prefix ?h' = getForwardedPrefix c @ ?P"
    by (simp add: h' init_prefix)
  have u: "URL (cfg ?h') = Join [prefix ?h', ''doc.json'']"
    by (simp add: h' init_URL n defaultDocURL_def)
  have "URL (cfg ?h') = Join [?P, ''doc.json'']" if "Ctx_Get c ''X-Forwarded-Prefix'' = []"
    using getForwardedPrefix_Nil [OF that] u p by simp
  with p u show ?thesis
    by (simp add: Let_def)
qed

theorem default_document_URL_witness:
  "URL ex_config = [] \<and>
   URL (cfg (fst (handler ex_index ex_ReadDoc (New ex_config)
     (request ''/docs/*'' [] ''index.html'')))) = ''/docs/doc.json'' \<and>
   URL (cfg (fst (handler ex_index ex_ReadDoc (New ex_config)
     (request ''/docs/*'' [(''X-Forwarded-Prefix'', ''/api/'')] ''index.html''))))
     = ''/api/docs/doc.json''"
proof -
  let ?c = "request ''/docs/*'' [] ''index.html''"
  let ?d = "request ''/docs/*'' [(''X-Forwarded-Prefix'', ''/api/'')] ''index.html''"
  have u: "URL ex_config = []"
    by (simp add: ex_config_def)
  have a: "Ctx_Get ?c ''X-Forwarded-Prefix'' = []"
    by (simp add: request_def Ctx_Get_def)
  have P: "filter (\<lambda>ch. ch \<noteq> CHR ''*'') (RoutePath ?c) = ''/docs/''"
    by (simp add: request_def)
  from default_document_URL [OF u, of ex_index ex_ReadDoc ?c] a
  have "URL (cfg (fst (handler ex_index ex_ReadDoc (New ex_config) ?c)))
      = Join [filter (\<lambda>ch. ch \<noteq> CHR ''*'') (RoutePath ?c), ''doc.json'']"
    unfolding Let_def by blast
  then have 1: "URL (cfg (fst (handler ex_index ex_ReadDoc (New ex_config) ?c)))
      = ''/docs/doc.json''"
    by (simp only: P ex_Join_doc)
  have f: "getForwardedPrefix ?d = ''/api''"
    by (simp add: getForwardedPrefix_strip stripTrailingSlashes_spec_def request_def Ctx_Get_def)
  have Q: "filter (\<lambda>ch. ch \<noteq> CHR ''*'') (RoutePath ?d) = ''/docs/''"
    by (simp add: request_def)
  from default_document_URL [OF u, of ex_index ex_ReadDoc ?d]
  have "URL (cfg (fst (handler ex_index ex_ReadDoc (New ex_config) ?d)))
      = Join [getForwardedPrefix ?d @ filter (\<lambda>ch. ch \<noteq> CHR ''*'') (RoutePath ?d),
          ''doc.json'']"
    unfolding Let_def by (elim conjE) (simp only:)
  then have 2: "URL (cfg (fst (handler ex_index ex_ReadDoc (New ex_config) ?d)))
      = ''/api/docs/doc.json''"
    by (simp only: f Q append.simps ex_Join_api_doc)
  from u 1 2 show ?thesis
    by (intro conjI)
qed

subsection \<open>The document endpoint\<close>

text \<open>
  C1 as stated fails: with \<^verbatim>\<open>Config.URL = "swagger.json"\<close> and a registry that holds
  the document, the request whose wildcard segment is \<^verbatim>\<open>swagger.json\<close>, the
  configured document URL, is answered with status 404 and the body \<^verbatim>\<open>Not Found\<close>.
\<close>

theorem configured_URL_not_served:
  "Ctx_Params (request ''/docs/*'' [] ''swagger.json'') ''*''
     = URL (cfg (fst (handler ex_index ex_ReadDoc (New ex_config_url)
         (request ''/docs/*'' [] ''swagger.json'')))) \<and>
   ex_ReadDoc (InstanceName ex_config_url) = Inr ''{}'' \<and>
   StatusCode (fst (snd (handler ex_index ex_ReadDoc (New ex_config_url)
     (request ''/docs/*'' [] ''swagger.json'')))) = 404 \<and>
   Body (fst (snd (handler ex_index ex_ReadDoc (New ex_config_url)
     (request ''/docs/*'' [] ''swagger.json'')))) = ''Not Found'' \<and>
   RespType (fst (snd (handler ex_index ex_ReadDoc (New ex_config_url)
     (request ''/docs/*'' [] ''swagger.json'')))) = None"
proof -
  let ?c = "request ''/docs/*'' [] ''swagger.json''"
  have p: "Ctx_Params ?c ''*'' = ''swagger.json''"
    by (simp add: request_def Ctx_Params_def)
  then have "Ctx_Params ?c ''*'' \<notin> {''index.html'', ''doc.json'', [], ''/''}"
    by simp
  then have "snd (handler ex_index ex_ReadDoc (New ex_config_url) ?c) =
      (Ctx_SendStatus (?c\<lparr>ReqPath := Ctx_Params ?c ''*''\<rparr>) 404, None)"
    by (rule handler_other)
  moreover have "URL (cfg (fst (handler ex_index ex_ReadDoc (New ex_config_url) ?c)))
      = ''swagger.json''"
    by (simp add: handler_state once_Do_def New_def init_URL ex_config_url_def)
  moreover have "ex_ReadDoc (InstanceName ex_config_url) = Inr ''{}''"
    by (simp add: ex_ReadDoc_def ex_config_url_def)
  ultimately show ?thesis
    using p
    by (simp add: Ctx_SendStatus_def Ctx_Status_def Ctx_SendString_def StatusMessage_def
        request_def)
qed

text \<open>
  C1, amended. The document endpoint is the fixed segment \<^verbatim>\<open>doc.json\<close>: for every
  request whose wildcard segment is \<^verbatim>\<open>doc.json\<close> and whatever \<^verbatim>\<open>Config.URL\<close> is, the
  handler answers with the document the registry holds under \<^verbatim>\<open>cfg.InstanceName\<close>;
  for every other segment, the configured URL included, the answer does not depend on
  the registry. (\<^verbatim>\<open>Config.URL\<close> is a value given to the index template.)
\<close>

theorem document_endpoint_fixed:
  "(Ctx_Params c ''*'' = ''doc.json'' \<longrightarrow> ReadDoc (InstanceName (cfg h)) = Inr doc \<longrightarrow>
      snd (handler index ReadDoc h c) =
        (c\<lparr>ReqPath := ''doc.json'', RespType := Some ''json'', Body := doc\<rparr>, None)) \<and>
   (Ctx_Params c ''*'' \<noteq> ''doc.json'' \<longrightarrow>
      handler index ReadDoc h c = handler index ReadDoc' h c)"
proof (intro conjI impI)
  assume p: "Ctx_Params c ''*'' = ''doc.json''"
    and found: "ReadDoc (InstanceName (cfg h)) = Inr doc"
  from handler_doc [OF p, of index ReadDoc h] found
  show "snd (handler index ReadDoc h c) =
      (c\<lparr>ReqPath := ''doc.json'', RespType := Some ''json'', Body := doc\<rparr>, None)"
    by simp
next
  assume "Ctx_Params c ''*'' \<noteq> ''doc.json''"
  then show "handler index ReadDoc h c = handler index ReadDoc' h c"
    by (rule handler_no_lookup)
qed

theorem document_endpoint_fixed_witness:
  "snd (handler ex_index ex_ReadDoc (New ex_config_url) (request ''/docs/*'' [] ''doc.json''))
     = ((request ''/docs/*'' [] ''doc.json'')
          \<lparr>ReqPath := ''doc.json'', RespType := Some ''json'', Body := ''{}''\<rparr>, None) \<and>
   handler ex_index ex_ReadDoc (New ex_config_url) (request ''/docs/*'' [] ''swagger.json'')
     = handler ex_index (\<lambda>name. Inl (Error ''unavailable'')) (New ex_config_url)
         (request ''/docs/*'' [] ''swagger.json'')"
proof -
  have a: "Ctx_Params (request ''/docs/*'' [] ''doc.json'') ''*'' = ''doc.json''"
    by (simp add: request_def Ctx_Params_def)
  have b: "ex_ReadDoc (InstanceName (cfg (New ex_config_url))) = Inr ''{}''"
    by (simp add: ex_ReadDoc_def ex_config_url_def New_def)
  have c: "Ctx_Params (request ''/docs/*'' [] ''swagger.json'') ''*'' \<noteq> ''doc.json''"
    by (simp add: request_def Ctx_Params_def)
  from a b
    document_endpoint_fixed [of "request ''/docs/*'' [] ''doc.json''" ex_ReadDoc
      "New ex_config_url" "''{}''" ex_index]
  have "snd (handler ex_index ex_ReadDoc (New ex_config_url) (request ''/docs/*'' [] ''doc.json''))
     = ((request ''/docs/*'' [] ''doc.json'')
          \<lparr>ReqPath := ''doc.json'', RespType := Some ''json'', Body := ''{}''\<rparr>, None)"
    by blast
  moreover from c
    document_endpoint_fixed [of "request ''/docs/*'' [] ''swagger.json''" ex_ReadDoc
      "New ex_config_url" _ ex_index "\<lambda>name. Inl (Error ''unavailable'')"]
  have "handler ex_index ex_ReadDoc (New ex_config_url) (request ''/docs/*'' [] ''swagger.json'')
     = handler ex_index (\<lambda>name. Inl (Error ''unavailable'')) (New ex_config_url)
         (request ''/docs/*'' [] ''swagger.json'')"
    by blast
  ultimately show ?thesis
    by (rule conjI)
qed

text \<open>
  C6. For every request whose wildcard segment is \<^verbatim>\<open>doc.json\<close>: when the lookup of
  \<^verbatim>\<open>cfg.InstanceName\<close> in the registry gives a document, the handler sets the type
  \<^verbatim>\<open>json\<close>, makes the document the body as it is, and returns no error; when the
  lookup gives an error, the handler returns that error and writes nothing to the
  response. The registry is asked once, and nothing stands between its answer and the
  result.
\<close>

theorem document_lookup:
  assumes "Ctx_Params c ''*'' = ''doc.json''"
  shows "(\<forall>doc. ReadDoc (InstanceName (cfg h)) = Inr doc \<longrightarrow>
            snd (handler index ReadDoc h c) =
              (c\<lparr>ReqPath := ''doc.json'', RespType := Some ''json'', Body := doc\<rparr>, None)) \<and>
         (\<forall>err. ReadDoc (InstanceName (cfg h)) = Inl err \<longrightarrow>
            snd (handler index ReadDoc h c) = (c\<lparr>ReqPath := ''doc.json''\<rparr>, Some err))"
proof (intro conjI allI impI)
  fix doc
  assume "ReadDoc (InstanceName (cfg h)) = Inr doc"
  with handler_doc [OF assms, of index ReadDoc h]
  show "snd (handler index ReadDoc h c) =
      (c\<lparr>ReqPath := ''doc.json'', RespType := Some ''json'', Body := doc\<rparr>, None)"
    by simp
next
  fix err
  assume "ReadDoc (InstanceName (cfg h)) = Inl err"
  with handler_doc [OF assms, of index ReadDoc h]
  show "snd (handler index ReadDoc h c) = (c\<lparr>ReqPath := ''doc.json''\<rparr>, Some err)"
    by simp
qed

theorem document_lookup_witness:
  "snd (handler ex_index ex_ReadDoc (New ex_config) (request ''/docs/*'' [] ''doc.json''))
     = ((request ''/docs/*'' [] ''doc.json'')
          \<lparr>ReqPath := ''doc.json'', RespType := Some ''json'', Body := ''{}''\<rparr>, None) \<and>
   snd (handler ex_index ex_ReadDoc (New (ex_config\<lparr>InstanceName := ''v2''\<rparr>))
          (request ''/docs/*'' [] ''doc.json''))
     = ((request ''/docs/*'' [] ''doc.json'')\<lparr>ReqPath := ''doc.json''\<rparr>,
        Some (Error ''not registered''))"
proof -
  have a: "Ctx_Params (request ''/docs/*'' [] ''doc.json'') ''*'' = ''doc.json''"
    by (simp add: request_def Ctx_Params_def)
  have b: "ex_ReadDoc (InstanceName (cfg (New ex_config))) = Inr ''{}''"
    by (simp add: ex_ReadDoc_def ex_config_def New_def)
  have c: "ex_ReadDoc (InstanceName (cfg (New (ex_config\<lparr>InstanceName := ''v2''\<rparr>))))
      = Inl (Error ''not registered'')"
    by (simp add: ex_ReadDoc_def ex_config_def New_def)
  from b document_lookup [OF a, of ex_ReadDoc "New ex_config" ex_index]
  have "snd (handler ex_index ex_ReadDoc (New ex_config) (request ''/docs/*'' [] ''doc.json''))
     = ((request ''/docs/*'' [] ''doc.json'')
          \<lparr>ReqPath := ''doc.json'', RespType := Some ''json'', Body := ''{}''\<rparr>, None)"
    by blast
  moreover from c
    document_lookup [OF a, of ex_ReadDoc "New (ex_config\<lparr>InstanceName := ''v2''\<rparr>)" ex_index]
  have "snd (handler ex_index ex_ReadDoc (New (ex_config\<lparr>InstanceName := ''v2''\<rparr>))
          (request ''/docs/*'' [] ''doc.json''))
     = ((request ''/docs/*'' [] ''doc.json'')\<lparr>ReqPath := ''doc.json''\<rparr>,
        Some (Error ''not registered''))"
    by blast
  ultimately show ?thesis
    by (rule conjI)
qed

subsection \<open>Redirect of the bare mount path\<close>

text \<open>
  C2 as stated fails: mounted at \<^verbatim>\<open>/docs/*\<close>, the prefix is \<^verbatim>\<open>/docs/\<close>, and the
  request for the bare mount path gets \<^verbatim>\<open>Location: /docs/index.html\<close>, whereas the
  concatenation of the prefix and \<^verbatim>\<open>/index.html\<close> is \<^verbatim>\<open>/docs//index.html\<close>.
\<close>

theorem Location_not_concatenation:
  "map_of (RespHeaders (fst (snd (handler ex_index ex_ReadDoc (New ex_config)
      (request ''/docs/*'' [] []))))) ''Location'' = Some ''/docs/index.html'' \<and>
   prefix (fst (handler ex_index ex_ReadDoc (New ex_config) (request ''/docs/*'' [] [])))
      @ ''/index.html'' = ''/docs//index.html'' \<and>
   map_of (RespHeaders (fst (snd (handler ex_index ex_ReadDoc (New ex_config)
      (request ''/docs/*'' [] []))))) ''Location''
     \<noteq> Some (prefix (fst (handler ex_index ex_ReadDoc (New ex_config)
          (request ''/docs/*'' [] []))) @ ''/index.html'')"
proof -
  let ?c = "request ''/docs/*'' [] []"
  have p: "Ctx_Params ?c ''*'' = [] \<or> Ctx_Params ?c ''*'' = ''/''"
    by (simp add: request_def Ctx_Params_def)
  have f: "getForwardedPrefix ?c = []"
    by (rule getForwardedPrefix_Nil) (simp add: request_def Ctx_Get_def)
  have o: "\<not> once (New ex_config)"
    by (simp add: New_def)
  have "prefix (once_Do (init ?c) (New ex_config)) = prefix (init ?c (New ex_config))"
    using once_Do_first [OF o] by blast
  also have "\<dots> = ''/docs/''"
    by (simp add: init_prefix f) (simp add: request_def)
  finally have pre: "prefix (once_Do (init ?c) (New ex_config)) = ''/docs/''" .
  have "map_of (RespHeaders (fst (snd (handler ex_index ex_ReadDoc (New ex_config) ?c))))
      ''Location'' = Some (Join [prefix (once_Do (init ?c) (New ex_config)), ''index.html''])"
    by (simp add: handler_bare [OF p] update_conv')
  then have l: "map_of (RespHeaders (fst (snd (handler ex_index ex_ReadDoc (New ex_config) ?c))))
      ''Location'' = Some ''/docs/index.html''"
    by (simp only: pre ex_Join_index)
  have q: "prefix (fst (handler ex_index ex_ReadDoc (New ex_config) ?c)) @ ''/index.html''
      = ''/docs//index.html''"
    by (simp add: handler_state pre)
  have "map_of (RespHeaders (fst (snd (handler ex_index ex_ReadDoc (New ex_config) ?c))))
      ''Location''
     \<noteq> Some (prefix (fst (handler ex_index ex_ReadDoc (New ex_config) ?c)) @ ''/index.html'')"
    unfolding l q by simp
  with l q show ?thesis
    by (intro conjI)
qed

text \<open>
  C2, amended. For every request whose wildcard segment is the empty string or
  \<^verbatim>\<open>/\<close>, the handler sets the \<^verbatim>\<open>Location\<close> header to \<^verbatim>\<open>path.Join(prefix, "index.html")\<close>,
  the cleaned join of the prefix and \<^verbatim>\<open>index.html\<close>, sets the status 301 (Moved
  Permanently), sends an empty body and returns no error.
\<close>

theorem bare_path_redirect:
  assumes "Ctx_Params c ''*'' = [] \<or> Ctx_Params c ''*'' = ''/''"
  shows "let (h', c', err) = handler index ReadDoc h c in
           map_of (RespHeaders c') ''Location'' = Some (Join [prefix h', ''index.html'']) \<and>
           StatusCode c' = 301 \<and> Body c' = [] \<and> err = None"
proof -
  obtain h' c' err where r: "handler index ReadDoc h c = (h', c', err)"
    by (cases "handler index ReadDoc h c")
  then have "h' = once_Do (init c) h"
    using handler_state [of index ReadDoc h c] by simp
  moreover from r have "(c', err) = snd (handler index ReadDoc h c)"
    by simp
  ultimately have "(c', err) =
     (c\<lparr>ReqPath := Ctx_Params c ''*'',
        RespHeaders := AList.update ''Location'' (Join [prefix h', ''index.html'']) (RespHeaders c),
        StatusCode := 301, Body := []\<rparr>, None)"
    using handler_bare [OF assms, of index ReadDoc h] by simp
  then show ?thesis
    by (simp add: r update_conv')
qed

theorem bare_path_redirect_witness:
  "(let (h', c', err) = handler ex_index ex_ReadDoc (New ex_config) (request ''/docs/*'' [] ''/'')
    in map_of (RespHeaders c') ''Location'' = Some (Join [prefix h', ''index.html'']) \<and>
       StatusCode c' = 301 \<and> Body c' = [] \<and> err = None) \<and>
   Ctx_Params (request ''/docs/*'' [] ''/'') ''*'' = ''/''"
proof -
  have a: "Ctx_Params (request ''/docs/*'' [] ''/'') ''*'' = ''/''"
    by (simp add: request_def Ctx_Params_def)
  then have "Ctx_Params (request ''/docs/*'' [] ''/'') ''*'' = []
      \<or> Ctx_Params (request ''/docs/*'' [] ''/'') ''*'' = ''/''" ..
  from bare_path_redirect [OF this, of ex_index ex_ReadDoc "New ex_config"] a
  show ?thesis
    by (rule conjI)
qed

subsection \<open>Unmatched paths\<close>

text \<open>
  C7. For every request whose wildcard segment is none of \<^verbatim>\<open>index.html\<close>,
  \<^verbatim>\<open>doc.json\<close> (the document endpoint), the empty string and \<^verbatim>\<open>/\<close>, the handler
  answers with \<^verbatim>\<open>c.SendStatus(404)\<close> and returns no error: the status is 404, the
  body of a response that had none is \<^verbatim>\<open>Not Found\<close>, and no type or header is set.
\<close>

theorem unmatched_not_found:
  assumes "Ctx_Params c ''*'' \<notin> {''index.html'', ''doc.json'', [], ''/''}"
  shows "let (h', c', err) = handler index ReadDoc h c in
           err = None \<and> StatusCode c' = 404 \<and>
           c' = Ctx_SendStatus (c\<lparr>ReqPath := Ctx_Params c ''*''\<rparr>) 404 \<and>
           Body c' = (if Body c = [] then ''Not Found'' else Body c) \<and>
           RespType c' = RespType c \<and> RespHeaders c' = RespHeaders c"
proof -
  obtain h' c' err where r: "handler index ReadDoc h c = (h', c', err)"
    by (cases "handler index ReadDoc h c")
  then have "(c', err) = snd (handler index ReadDoc h c)"
    by simp
  then have "(c', err) = (Ctx_SendStatus (c\<lparr>ReqPath := Ctx_Params c ''*''\<rparr>) 404, None)"
    by (simp only: handler_other [OF assms])
  then show ?thesis
    by (simp add: r Ctx_SendStatus_def Ctx_Status_def Ctx_SendString_def StatusMessage_def)
qed

theorem unmatched_not_found_witness:
  "Ctx_Params (request ''/docs/*'' [] ''swagger-ui.css'') ''*''
      \<notin> {''index.html'', ''doc.json'', [], ''/''} \<and>
   (let (h', c', err) = handler ex_index ex_ReadDoc (New ex_config)
          (request ''/docs/*'' [] ''swagger-ui.css'')
    in err = None \<and> StatusCode c' = 404 \<and> Body c' = ''Not Found'')"
proof -
  let ?c = "request ''/docs/*'' [] ''swagger-ui.css''"
  have a: "Ctx_Params ?c ''*'' \<notin> {''index.html'', ''doc.json'', [], ''/''}"
    by (simp add: request_def Ctx_Params_def)
  have b: "Body ?c = []"
    by (simp add: request_def)
  from unmatched_not_found [OF a, of ex_index ex_ReadDoc "New ex_config"] b
  have "let (h', c', err) = handler ex_index ex_ReadDoc (New ex_config) ?c
    in err = None \<and> StatusCode c' = 404 \<and> Body c' = ''Not Found''"
    by (simp add: Let_def split: prod.splits)
  with a show ?thesis
    by (rule conjI)
qed

subsection \<open>The index page\<close>




subsection \<open>Later requests\<close>

text \<open>
  C10. Let \<open>h1\<close> be the state of a handler made by \<^verbatim>\<open>New\<close> after its first request.
  No later request changes it: after any sequence of requests the state is still
  \<open>h1\<close>, so \<^verbatim>\<open>prefix\<close> and \<^verbatim>\<open>cfg.URL\<close> are the values the first request computed, and
  the \<^verbatim>\<open>Location\<close> of every later redirect is the join of that prefix and
  \<^verbatim>\<open>index.html\<close>, whatever route path and \<^verbatim>\<open>X-Forwarded-Prefix\<close> header the later
  request has.
\<close>

theorem later_requests_frame:
  assumes "h1 = fst (handler index ReadDoc (New config) c0)"
  shows "serve index ReadDoc h1 cs = h1 \<and>
         prefix (serve index ReadDoc h1 cs) = getForwardedPrefix c0
            @ filter (\<lambda>ch. ch \<noteq> CHR ''*'') (RoutePath c0) \<and>
         URL (cfg (serve index ReadDoc h1 cs)) = URL (cfg h1) \<and>
         (\<forall>c. fst (handler index ReadDoc h1 c) = h1 \<and>
              (Ctx_Params c ''*'' = [] \<or> Ctx_Params c ''*'' = ''/'' \<longrightarrow>
                 map_of (RespHeaders (fst (snd (handler index ReadDoc h1 c)))) ''Location''
                   = Some (Join [prefix h1, ''index.html''])))"
proof -
  have o: "once h1"
    unfolding assms handler_state by (rule once_Do_sets)
  then have s: "serve index ReadDoc h1 cs = h1"
    by (rule serve_done)
  have "\<not> once (New config)"
    by (simp add: New_def)
  then have p: "prefix h1 = getForwardedPrefix c0 @ filter (\<lambda>ch. ch \<noteq> CHR ''*'') (RoutePath c0)"
    unfolding assms handler_state by (simp add: once_Do_first init_prefix)
  have f: "fst (handler index ReadDoc h1 c) = h1" for c
    using o by (simp add: handler_state once_Do_done)
  have "map_of (RespHeaders (fst (snd (handler index ReadDoc h1 c)))) ''Location''
      = Some (Join [prefix h1, ''index.html''])"
    if "Ctx_Params c ''*'' = [] \<or> Ctx_Params c ''*'' = ''/''" for c
    using o by (simp add: handler_bare [OF that] once_Do_done update_conv')
  with s p f show ?thesis
    by simp
qed

theorem later_requests_frame_witness:
  "(let h1 = fst (handler ex_index ex_ReadDoc (New ex_config) (request ''/docs/*'' [] ''index.html''));
        later = request ''/other/*'' [(''X-Forwarded-Prefix'', ''/proxy'')] []
    in serve ex_index ex_ReadDoc h1 [later, later] = h1 \<and>
       fst (handler ex_index ex_ReadDoc h1 later) = h1 \<and>
       prefix h1 = ''/docs/'' \<and>
       map_of (RespHeaders (fst (snd (handler ex_index ex_ReadDoc h1 later)))) ''Location''
         = Some ''/docs/index.html'')"
proof -
  define h1 where
    "h1 = fst (handler ex_index ex_ReadDoc (New ex_config) (request ''/docs/*'' [] ''index.html''))"
  define later where "later = request ''/other/*'' [(''X-Forwarded-Prefix'', ''/proxy'')] []"
  have a: "Ctx_Params later ''*'' = [] \<or> Ctx_Params later ''*'' = ''/''"
    by (simp add: later_def request_def Ctx_Params_def)
  have b: "getForwardedPrefix (request ''/docs/*'' [] ''index.html'') = []"
    by (rule getForwardedPrefix_Nil) (simp add: request_def Ctx_Get_def)
  have c: "filter (\<lambda>ch. ch \<noteq> CHR ''*'') (RoutePath (request ''/docs/*'' [] ''index.html''))
      = ''/docs/''"
    by (simp add: request_def)
  note t = later_requests_frame [OF h1_def, of "[later, later]"]
  from t have 1: "serve ex_index ex_ReadDoc h1 [later, later] = h1"
    by blast
  from t have 2: "fst (handler ex_index ex_ReadDoc h1 later) = h1"
    by blast
  from t have "prefix (serve ex_index ex_ReadDoc h1 [later, later])
      = getForwardedPrefix (request ''/docs/*'' [] ''index.html'')
        @ filter (\<lambda>ch. ch \<noteq> CHR ''*'') (RoutePath (request ''/docs/*'' [] ''index.html''))"
    by blast
  then have 3: "prefix h1 = ''/docs/''"
    by (simp only: 1 b c append_Nil)
  from t a have
    "map_of (RespHeaders (fst (snd (handler ex_index ex_ReadDoc h1 later)))) ''Location''
         = Some (Join [prefix h1, ''index.html''])"
    by blast
  then have 4: "map_of (RespHeaders (fst (snd (handler ex_index ex_ReadDoc h1 later)))) ''Location''
         = Some ''/docs/index.html''"
    by (simp only: 3 ex_Join_index)
  from 1 2 3 4 show ?thesis
    unfolding Let_def h1_def later_def by (intro conjI)
qed

end
